theory Spec2Isabelle
  imports Complex_Main "HOL-Library.Char_ord" "HOL-Library.List_Lexorder"
begin

section \<open>Values of the Python program\<close>

text \<open>
  The verifier of \<^verbatim>\<open>nft_verifier.py\<close> works on the decoded JSON answers of a blockchain node:
  dictionaries with string keys whose values may be anything JSON can hold. A value is
  modelled by the datatype \<open>json\<close>, a dictionary by an association list that is read with
  \<open>map_of\<close> (keys are meant to be distinct, as in a Python \<^verbatim>\<open>dict\<close>; the list keeps the
  insertion order). Numbers are Python's unbounded integers; a JSON number with a fraction or
  an exponent is outside the model. Strings are lists of bytes; the model is exact for ASCII
  text, which is where \<^verbatim>\<open>str.lower\<close> and the keyword tests of the program operate.
\<close>

datatype json =
    JNull
  | JBool bool
  | JInt int
  | JStr string
  | JList "json list"
  | JObj "(string \<times> json) list"

type_synonym dict = "(string \<times> json) list"

text \<open>The exceptions that the modelled code can raise; a raising call returns \<open>Inl\<close>.\<close>

datatype exn = TypeError | AttributeError | ValueError | IndexError

definition ebind :: "exn + 'a \<Rightarrow> ('a \<Rightarrow> exn + 'b) \<Rightarrow> exn + 'b" where
  "ebind m f = (case m of Inl e \<Rightarrow> Inl e | Inr x \<Rightarrow> f x)"

text \<open>\<^verbatim>\<open>d.get(k, default)\<close> and \<^verbatim>\<open>k in d\<close> on a dictionary.\<close>

definition dict_get :: "dict \<Rightarrow> string \<Rightarrow> json \<Rightarrow> json" where
  "dict_get d k dflt = (case map_of d k of None \<Rightarrow> dflt | Some v \<Rightarrow> v)"

definition has_key :: "dict \<Rightarrow> string \<Rightarrow> bool" where
  "has_key d k = (map_of d k \<noteq> None)"

text \<open>Truth value of a JSON value, as \<^verbatim>\<open>not v\<close> and \<^verbatim>\<open>if v\<close> test it.\<close>

fun truthy :: "json \<Rightarrow> bool" where
  "truthy JNull = False"
| "truthy (JBool b) = b"
| "truthy (JInt i) = (i \<noteq> 0)"
| "truthy (JStr s) = (s \<noteq> [])"
| "truthy (JList xs) = (xs \<noteq> [])"
| "truthy (JObj d) = (d \<noteq> [])"

subsection \<open>Strings\<close>

definition lower_char :: "char \<Rightarrow> char" where
  "lower_char c =
     (case map_of (zip ''ABCDEFGHIJKLMNOPQRSTUVWXYZ'' ''abcdefghijklmnopqrstuvwxyz'') c of
        None \<Rightarrow> c
      | Some l \<Rightarrow> l)"

definition lower :: "string \<Rightarrow> string" where
  "lower s = map lower_char s"

text \<open>\<^verbatim>\<open>sub in s\<close> on strings: \<open>sub\<close> occurs in \<open>s\<close> as a contiguous run.\<close>

fun str_contains :: "string \<Rightarrow> string \<Rightarrow> bool" where
  "str_contains sub [] = (sub = [])"
| "str_contains sub (c # cs) = (take (length sub) (c # cs) = sub \<or> str_contains sub cs)"

text \<open>
  \<^verbatim>\<open>s.split(sep)\<close> for a separator that is not empty: the occurrences of \<open>sep\<close> are found
  from the left and do not overlap; \<open>acc\<close> holds the current piece, reversed.
\<close>

function split_from :: "string \<Rightarrow> string \<Rightarrow> string \<Rightarrow> string list" where
  "split_from sep acc [] = [rev acc]"
| "split_from sep acc (c # cs) =
     (if sep \<noteq> [] \<and> take (length sep) (c # cs) = sep
      then rev acc # split_from sep [] (drop (length sep) (c # cs))
      else split_from sep (c # acc) cs)"
  by pat_completeness auto
termination
  by (relation "measure (\<lambda>(sep, acc, s). length s)") auto

definition split :: "string \<Rightarrow> string \<Rightarrow> string list" where
  "split sep s = split_from sep [] s"

text \<open>
  \<^verbatim>\<open>xs[i]\<close>: the index \<open>i\<close> reads from the front when it is not negative and from the
  back (\<open>-1\<close> is the last element) when it is; outside the list Python raises.
\<close>

definition py_index :: "'a list \<Rightarrow> int \<Rightarrow> exn + 'a" where
  "py_index xs i =
     (if 0 \<le> i
      then (if nat i < length xs then Inr (xs ! nat i) else Inl IndexError)
      else (if nat (- i) \<le> length xs then Inr (xs ! (length xs - nat (- i)))
            else Inl IndexError))"

text \<open>
  \<^verbatim>\<open>d.get(k, "").lower()\<close>: only a string has the method \<^verbatim>\<open>lower\<close>.
\<close>

definition get_lower :: "dict \<Rightarrow> string \<Rightarrow> exn + string" where
  "get_lower d k =
     (case dict_get d k (JStr '''') of JStr s \<Rightarrow> Inr (lower s) | _ \<Rightarrow> Inl AttributeError)"

text \<open>
  \<^verbatim>\<open>k in v\<close> for a string \<open>k\<close> and any value \<open>v\<close>: a substring test on a string, a
  membership test on a list, a key test on a dictionary; the other values are not containers.
\<close>

fun py_in :: "string \<Rightarrow> json \<Rightarrow> exn + bool" where
  "py_in k (JStr s) = Inr (str_contains k s)"
| "py_in k (JList xs) = Inr (JStr k \<in> set xs)"
| "py_in k (JObj d) = Inr (has_key d k)"
| "py_in k JNull = Inl TypeError"
| "py_in k (JBool b) = Inl TypeError"
| "py_in k (JInt i) = Inl TypeError"

text \<open>
  \<^verbatim>\<open>for e in v\<close>: a list yields its elements, a string its characters, a dictionary its
  keys; the other values cannot be iterated.
\<close>

fun py_iter :: "json \<Rightarrow> exn + json list" where
  "py_iter (JList xs) = Inr xs"
| "py_iter (JStr s) = Inr (map (\<lambda>c. JStr [c]) s)"
| "py_iter (JObj d) = Inr (map (\<lambda>kv. JStr (fst kv)) d)"
| "py_iter JNull = Inl TypeError"
| "py_iter (JBool b) = Inl TypeError"
| "py_iter (JInt i) = Inl TypeError"

subsection \<open>Comparison of values\<close>

text \<open>
  \<^verbatim>\<open>a == b\<close> never raises on JSON values: \<^verbatim>\<open>True\<close> and \<^verbatim>\<open>False\<close> are the integers 1 and 0,
  lists are equal elementwise, dictionaries when they bind the same keys to equal values.
\<close>

fun py_eq :: "json \<Rightarrow> json \<Rightarrow> bool"
  and py_eq_list :: "json list \<Rightarrow> json list \<Rightarrow> bool"
  and py_eq_items :: "dict \<Rightarrow> dict \<Rightarrow> bool" where
  "py_eq JNull b = (b = JNull)"
| "py_eq (JBool x) b =
     (case b of JBool y \<Rightarrow> x = y | JInt j \<Rightarrow> of_bool x = j | _ \<Rightarrow> False)"
| "py_eq (JInt i) b =
     (case b of JBool y \<Rightarrow> i = of_bool y | JInt j \<Rightarrow> i = j | _ \<Rightarrow> False)"
| "py_eq (JStr s) b = (b = JStr s)"
| "py_eq (JList xs) b = (case b of JList ys \<Rightarrow> py_eq_list xs ys | _ \<Rightarrow> False)"
| "py_eq (JObj d) b =
     (case b of JObj d' \<Rightarrow> length d = length d' \<and> py_eq_items d d' | _ \<Rightarrow> False)"
| "py_eq_list [] ys = (ys = [])"
| "py_eq_list (x # xs) ys =
     (case ys of [] \<Rightarrow> False | y # ys' \<Rightarrow> py_eq x y \<and> py_eq_list xs ys')"
| "py_eq_items [] d' = True"
| "py_eq_items (kv # d) d' =
     ((case map_of d' (fst kv) of None \<Rightarrow> False | Some w \<Rightarrow> py_eq (snd kv) w)
      \<and> py_eq_items d d')"

text \<open>
  \<^verbatim>\<open>a < b\<close>: numbers compare with numbers, strings with strings (by code point), lists with
  lists (at the first position where they differ, else by length); every other pair raises.
\<close>

fun py_lt :: "json \<Rightarrow> json \<Rightarrow> exn + bool"
  and py_lt_list :: "json list \<Rightarrow> json list \<Rightarrow> exn + bool" where
  "py_lt (JBool x) b =
     (case b of JBool y \<Rightarrow> Inr ((of_bool x :: int) < of_bool y)
      | JInt j \<Rightarrow> Inr (of_bool x < j) | _ \<Rightarrow> Inl TypeError)"
| "py_lt (JInt i) b =
     (case b of JBool y \<Rightarrow> Inr (i < of_bool y) | JInt j \<Rightarrow> Inr (i < j) | _ \<Rightarrow> Inl TypeError)"
| "py_lt (JStr s) b = (case b of JStr t \<Rightarrow> Inr (s < t) | _ \<Rightarrow> Inl TypeError)"
| "py_lt (JList xs) b = (case b of JList ys \<Rightarrow> py_lt_list xs ys | _ \<Rightarrow> Inl TypeError)"
| "py_lt JNull b = Inl TypeError"
| "py_lt (JObj d) b = Inl TypeError"
| "py_lt_list [] ys = Inr (ys \<noteq> [])"
| "py_lt_list (x # xs) ys =
     (case ys of [] \<Rightarrow> Inr False
      | y # ys' \<Rightarrow> if py_eq x y then py_lt_list xs ys' else py_lt x y)"

section \<open>The verifier\<close>

text \<open>
  The methods of the class \<^verbatim>\<open>NFTVerifier\<close> keep their names without the leading underscore.
  What the class takes from outside is a parameter of the model: the clock, the gateway to
  the node (\<^verbatim>\<open>aptos_api.py\<close>, two HTTP reads that answer a list of dictionaries or
  \<^verbatim>\<open>None\<close>) and the registry of known scammers (\<^verbatim>\<open>get_known_scammers\<close> of the module
  \<^verbatim>\<open>db\<close>, which is not among the sources; the specification gives the registry as a set of
  address strings, and so \<^verbatim>\<open>owner_address in self.known_scammers\<close> is membership in a set).
\<close>

subsection \<open>Token names\<close>

text \<open>
  \<^verbatim>\<open>_extract_token_name\<close>: the body of the \<^verbatim>\<open>try\<close> is \<open>token_name_try\<close>; its last four
  lines, reached when there is no bracketed part with a \<^verbatim>\<open>::\<close>, are \<open>token_name_parts\<close>.
  Any exception makes the function answer its argument.
\<close>

definition token_name_parts :: "string \<Rightarrow> exn + string" where
  "token_name_parts resource_type =
     (let parts = split ''::'' resource_type
      in if 3 \<le> length parts
         then ebind (py_index parts 2) (\<lambda>p. py_index (split ''<'' p) 0)
         else py_index (split ''::'' resource_type) (- 1))"

definition token_name_try :: "string \<Rightarrow> exn + string" where
  "token_name_try resource_type =
     (if str_contains ''<'' resource_type \<and> str_contains ''>'' resource_type
      then ebind (py_index (split ''<'' resource_type) 1) (\<lambda>after.
           ebind (py_index (split ''>'' after) 0) (\<lambda>inside_brackets.
             if str_contains ''::'' inside_brackets
             then py_index (split ''::'' inside_brackets) (- 1)
             else token_name_parts resource_type))
      else token_name_parts resource_type)"

definition extract_token_name :: "string \<Rightarrow> string" where
  "extract_token_name resource_type =
     (case token_name_try resource_type of Inl e \<Rightarrow> resource_type | Inr token \<Rightarrow> token)"

subsection \<open>Scoring one NFT\<close>

record risk_result =
  risk_score :: int
  risk_factors :: "string list"
  is_high_risk :: bool

text \<open>
  \<^verbatim>\<open>_verify_nft_metadata\<close>. The expected fields are a Python set, whose iteration order is
  not fixed; the order does not matter, since \<^verbatim>\<open>in\<close> raises for both fields or for neither.
\<close>

definition verify_nft_metadata :: "dict \<Rightarrow> exn + bool" where
  "verify_nft_metadata nft_data =
     (if \<not> (has_key nft_data ''name'' \<and> has_key nft_data ''id'') then Inr False
      else case map_of nft_data ''metadata'' of
             None \<Rightarrow> Inr True
           | Some original_metadata \<Rightarrow>
               ebind (py_in ''uri'' original_metadata) (\<lambda>has_uri.
                 if has_uri then Inr True else py_in ''description'' original_metadata))"

definition is_nft_transfer :: "dict \<Rightarrow> dict \<Rightarrow> exn + bool" where
  "is_nft_transfer tx nft_data =
     ebind (get_lower tx ''type'') (\<lambda>tx_type.
       if \<not> str_contains ''transfer'' tx_type then Inr False else Inr True)"

text \<open>\<^verbatim>\<open>sum(1 for tx in tx_history if self._is_nft_transfer(tx, nft_data))\<close>\<close>

fun count_transfers :: "dict list \<Rightarrow> dict \<Rightarrow> exn + int" where
  "count_transfers [] nft_data = Inr 0"
| "count_transfers (tx # txs) nft_data =
     ebind (is_nft_transfer tx nft_data) (\<lambda>hit.
     ebind (count_transfers txs nft_data) (\<lambda>n. Inr ((if hit then 1 else 0) + n)))"

text \<open>
  \<^verbatim>\<open>_analyze_nft_risk\<close>. The test \<^verbatim>\<open>if tx_history:\<close> fails for \<^verbatim>\<open>None\<close> and for the empty
  list.
\<close>

definition analyze_nft_risk :: "dict \<Rightarrow> dict list option \<Rightarrow> exn + risk_result" where
  "analyze_nft_risk nft_data tx_history =
     ebind (verify_nft_metadata nft_data) (\<lambda>complete.
     let score0 = (if \<not> complete then 40 else 0);
         factors0 = (if \<not> complete then [''INCOMPLETE_METADATA''] else [])
     in ebind (case tx_history of
                 None \<Rightarrow> Inr (score0, factors0)
               | Some [] \<Rightarrow> Inr (score0, factors0)
               | Some txs \<Rightarrow>
                   ebind (count_transfers txs nft_data) (\<lambda>transfer_count.
                     if transfer_count > 3
                     then Inr (score0 + 20 * (transfer_count - 3),
                               factors0 @ [''HIGH_TRANSFER_VELOCITY''])
                     else Inr (score0, factors0)))
          (\<lambda>(score, factors).
             Inr \<lparr>risk_score = score, risk_factors = factors, is_high_risk = (score \<ge> 70)\<rparr>))"

subsection \<open>Scoring a list of NFTs\<close>

record 'dt clock =
  now_isoformat :: string
  fromisoformat :: "string \<Rightarrow> exn + 'dt"
  days_before_now :: "'dt \<Rightarrow> exn + int"

text \<open>
  The clock: \<open>now_isoformat\<close> is \<^verbatim>\<open>datetime.now().isoformat()\<close>, \<open>fromisoformat\<close> is
  \<^verbatim>\<open>datetime.fromisoformat\<close> on a string, and \<open>days_before_now d\<close> is
  \<^verbatim>\<open>(datetime.now() - d).days\<close>. A call of the verifier reads the clock as one instant.
\<close>

record questionable_nft =
  nft_data :: dict
  risk_assessment :: risk_result

record nfts_result =
  average_risk_score :: rat
  questionable_nfts :: "questionable_nft list"
  is_verified :: bool
  verification_timestamp :: string

text \<open>
  The loop of \<^verbatim>\<open>_verify_nfts\<close> appends to two lists; the model returns both, in the order
  of the appends. The mean is the exact quotient, which Python rounds to a float.
\<close>

fun score_nfts :: "dict list \<Rightarrow> dict list option \<Rightarrow> exn + int list \<times> questionable_nft list" where
  "score_nfts [] tx_history = Inr ([], [])"
| "score_nfts (nft # nfts) tx_history =
     ebind (analyze_nft_risk nft tx_history) (\<lambda>risk_result.
     ebind (score_nfts nfts tx_history) (\<lambda>(risk_scores, questionable).
       Inr (risk_score risk_result # risk_scores,
            (if is_high_risk risk_result
             then [\<lparr>nft_data = nft, risk_assessment = risk_result\<rparr>] else []) @ questionable)))"

definition verify_nfts :: "'dt clock \<Rightarrow> dict list \<Rightarrow> dict list option \<Rightarrow> exn + nfts_result" where
  "verify_nfts clk nfts tx_history =
     ebind (score_nfts nfts tx_history) (\<lambda>(risk_scores, questionable).
       Inr \<lparr>average_risk_score =
              (if risk_scores \<noteq> []
               then of_int (sum_list risk_scores) / of_nat (length risk_scores) else 0),
            questionable_nfts = questionable,
            is_verified = (questionable = []),
            verification_timestamp = now_isoformat clk\<rparr>)"

subsection \<open>Scoring a collection\<close>

record collection_result = risk_result +
  is_verified :: bool
  verification_timestamp :: string

text \<open>
  \<^verbatim>\<open>min(tx_history, key=...)\<close> keeps the first transaction and replaces it by a later one
  whose key is smaller; it raises on the empty list and when two keys cannot be compared.
\<close>

fun min_by_key :: "(dict \<Rightarrow> json) \<Rightarrow> dict \<Rightarrow> dict list \<Rightarrow> exn + dict" where
  "min_by_key key best [] = Inr best"
| "min_by_key key best (x # xs) =
     ebind (py_lt (key x) (key best)) (\<lambda>smaller.
       min_by_key key (if smaller then x else best) xs)"

definition oldest_tx :: "'dt clock \<Rightarrow> dict list \<Rightarrow> exn + dict" where
  "oldest_tx clk tx_history =
     (case tx_history of
        [] \<Rightarrow> Inl ValueError
      | tx # txs \<Rightarrow>
          min_by_key (\<lambda>x. dict_get x ''timestamp'' (JStr (now_isoformat clk))) tx txs)"

text \<open>
  \<^verbatim>\<open>(datetime.now() - datetime.fromisoformat(oldest_tx.get("timestamp"))).days\<close>: the parser
  takes a string only, and nothing here catches what it or the subtraction raises.
\<close>

definition account_age_days :: "'dt clock \<Rightarrow> dict \<Rightarrow> exn + int" where
  "account_age_days clk oldest =
     (case dict_get oldest ''timestamp'' JNull of
        JStr s \<Rightarrow> ebind (fromisoformat clk s) (days_before_now clk)
      | _ \<Rightarrow> Inl TypeError)"

definition verify_collection ::
  "'dt clock \<Rightarrow> dict \<Rightarrow> dict list option \<Rightarrow> exn + collection_result" where
  "verify_collection clk collection_data tx_history =
     ebind (case tx_history of
              None \<Rightarrow> Inr (0, [])
            | Some [] \<Rightarrow> Inr (0, [])
            | Some txs \<Rightarrow>
                ebind (oldest_tx clk txs) (\<lambda>oldest.
                ebind (account_age_days clk oldest) (\<lambda>age.
                  if age < 30 then Inr (25, [''NEW_CREATOR_ACCOUNT'']) else Inr (0, []))))
       (\<lambda>(score1, factors1).
     let supply = dict_get collection_data ''supply'' (JInt 0)
     in ebind (if py_eq supply (JInt 0)
               then Inr (score1 + 50, factors1 @ [''ZERO_SUPPLY''])
               else ebind (py_lt supply (JInt 5)) (\<lambda>low.
                      if low then Inr (score1 + 15, factors1 @ [''VERY_LOW_SUPPLY''])
                      else Inr (score1, factors1)))
       (\<lambda>(score2, factors2).
     let incomplete = (\<not> truthy (dict_get collection_data ''description'' JNull)
                       \<or> \<not> truthy (dict_get collection_data ''uri'' JNull));
         score3 = (if incomplete then score2 + 30 else score2);
         factors3 = (if incomplete then factors2 @ [''INCOMPLETE_METADATA''] else factors2);
         high = (score3 \<ge> 60)
     in Inr \<lparr>risk_score = score3, risk_factors = factors3, is_high_risk = high,
             is_verified = \<not> high, verification_timestamp = now_isoformat clk\<rparr>))"

subsection \<open>Account activities\<close>

record token_swaps_counts =
  swap_count :: int
  listing_count :: int

record nft_transfers_counts =
  deposit_count :: int
  withdraw_count :: int

record recent_transaction =
  tx_type :: json
  timestamp :: json
  success :: json

record activities =
  nft_staking :: bool
  token_swaps :: token_swaps_counts
  nft_transfers :: nft_transfers_counts
  property_modifications :: int
  recent_transactions :: "recent_transaction list"

text \<open>The dictionary that \<^verbatim>\<open>_parse_account_activities\<close> starts from.\<close>

definition no_activities :: activities where
  "no_activities =
     \<lparr>nft_staking = False,
      token_swaps = \<lparr>swap_count = 0, listing_count = 0\<rparr>,
      nft_transfers = \<lparr>deposit_count = 0, withdraw_count = 0\<rparr>,
      property_modifications = 0,
      recent_transactions = []\<rparr>"

text \<open>\<^verbatim>\<open>e.get("type", "").lower()\<close> for an element \<open>e\<close> of the events: it must be a dictionary.\<close>

definition event_type :: "json \<Rightarrow> exn + string" where
  "event_type e = (case e of JObj d \<Rightarrow> get_lower d ''type'' | _ \<Rightarrow> Inl AttributeError)"

text \<open>\<^verbatim>\<open>any(kw in e.get("type", "").lower() for e in events)\<close> stops at the first hit.\<close>

fun any_event :: "string \<Rightarrow> json list \<Rightarrow> exn + bool" where
  "any_event kw [] = Inr False"
| "any_event kw (e # es) =
     ebind (event_type e) (\<lambda>t. if str_contains kw t then Inr True else any_event kw es)"

text \<open>\<^verbatim>\<open>kw in tx_type or any(...)\<close>: the events are not looked at when the type has the keyword.\<close>

definition mentions :: "string \<Rightarrow> string \<Rightarrow> json \<Rightarrow> exn + bool" where
  "mentions kw tx_type_lower events =
     (if str_contains kw tx_type_lower then Inr True
      else ebind (py_iter events) (any_event kw))"

fun count_transfer_events ::
  "nft_transfers_counts \<Rightarrow> json list \<Rightarrow> exn + nft_transfers_counts" where
  "count_transfer_events counts [] = Inr counts"
| "count_transfer_events counts (event # events) =
     ebind (event_type event) (\<lambda>t.
       count_transfer_events
         (counts\<lparr>deposit_count :=
                    deposit_count counts + (if str_contains ''deposit'' t then 1 else 0),
                  withdraw_count :=
                    withdraw_count counts + (if str_contains ''withdraw'' t then 1 else 0)\<rparr>)
         events)"

fun property_events :: "json list \<Rightarrow> exn + json list" where
  "property_events [] = Inr []"
| "property_events (e # es) =
     ebind (event_type e) (\<lambda>t.
     ebind (property_events es) (\<lambda>rest.
       Inr (if str_contains ''property'' t then e # rest else rest)))"

text \<open>One round of the loop over the transactions.\<close>

definition parse_tx :: "activities \<Rightarrow> dict \<Rightarrow> exn + activities" where
  "parse_tx a tx =
     ebind (get_lower tx ''type'') (\<lambda>t.
     let events = dict_get tx ''events'' (JList [])
     in ebind (mentions ''stake'' t events) (\<lambda>staked.
        ebind (mentions ''swap'' t events) (\<lambda>swapped.
        ebind (mentions ''list'' t events) (\<lambda>listed.
        ebind (py_iter events) (\<lambda>evs.
        ebind (count_transfer_events (nft_transfers a) evs) (\<lambda>transfers.
        ebind (property_events evs) (\<lambda>props.
          Inr \<lparr>nft_staking = (if staked then True else nft_staking a),
               token_swaps =
                 \<lparr>swap_count = swap_count (token_swaps a) + (if swapped then 1 else 0),
                  listing_count = listing_count (token_swaps a) + (if listed then 1 else 0)\<rparr>,
               nft_transfers = transfers,
               property_modifications = property_modifications a + int (length props),
               recent_transactions =
                 (if length (recent_transactions a) < 5
                  then recent_transactions a @
                         [\<lparr>tx_type = dict_get tx ''type'' (JStr ''Unknown''),
                           timestamp = dict_get tx ''timestamp'' (JStr ''''),
                           success = dict_get tx ''success'' (JBool True)\<rparr>]
                  else recent_transactions a)\<rparr>)))))))"

fun parse_txs :: "activities \<Rightarrow> dict list \<Rightarrow> exn + activities" where
  "parse_txs a [] = Inr a"
| "parse_txs a (tx # txs) = ebind (parse_tx a tx) (\<lambda>a'. parse_txs a' txs)"

text \<open>
  \<^verbatim>\<open>_parse_account_activities\<close>: the loop \<^verbatim>\<open>for tx in tx_history\<close> has no test before it,
  and \<^verbatim>\<open>None\<close> cannot be iterated.
\<close>

definition parse_account_activities :: "dict list option \<Rightarrow> exn + activities" where
  "parse_account_activities tx_history =
     (case tx_history of
        None \<Rightarrow> Inl TypeError
      | Some txs \<Rightarrow> parse_txs no_activities txs)"

subsection \<open>The report on an owner\<close>

record aptos_api =
  get_account_resources :: "string \<Rightarrow> dict list option"
  get_account_transactions :: "string \<Rightarrow> dict list option"

record token_balance =
  name :: string
  amount :: json
  resource_type :: json

text \<open>
  The dictionary \<^verbatim>\<open>formatted_nft\<close> built for one resource; \<^verbatim>\<open>raw_data.get\<close> needs a
  dictionary under the key \<^verbatim>\<open>data\<close>.
\<close>

definition format_nft :: "dict \<Rightarrow> exn + dict" where
  "format_nft resource =
     (case dict_get resource ''data'' (JObj []) of
        JObj raw_data \<Rightarrow>
          Inr ([(''name'', dict_get raw_data ''name'' (JStr ''Unnamed NFT'')),
                (''id'', dict_get raw_data ''token_id'' (dict_get raw_data ''id'' (JStr ''N/A''))),
                (''collection'',
                   dict_get raw_data ''collection_name''
                     (dict_get raw_data ''collection'' (JStr ''N/A''))),
                (''creator'',
                   dict_get raw_data ''creator_address''
                     (dict_get raw_data ''creator'' (JStr ''N/A''))),
                (''metadata'', JObj raw_data),
                (''resource_type'', dict_get resource ''type'' JNull)]
               @ (if has_key raw_data ''uri''
                  then [(''uri'', dict_get raw_data ''uri'' JNull)] else [])
               @ (if has_key raw_data ''description''
                  then [(''description'', dict_get raw_data ''description'' JNull)] else []))
      | _ \<Rightarrow> Inl AttributeError)"

text \<open>The first loop over the resources: \<^verbatim>\<open>"token" in resource.get("type", "")\<close>.\<close>

fun parse_nfts :: "dict list \<Rightarrow> exn + dict list" where
  "parse_nfts [] = Inr []"
| "parse_nfts (resource # resources) =
     ebind (py_in ''token'' (dict_get resource ''type'' (JStr ''''))) (\<lambda>is_token.
       if is_token
       then ebind (format_nft resource) (\<lambda>formatted_nft.
            ebind (parse_nfts resources) (\<lambda>rest. Inr (formatted_nft # rest)))
       else parse_nfts resources)"

text \<open>
  The second loop: a resource whose lower-cased type has \<^verbatim>\<open>coin\<close> or \<^verbatim>\<open>token\<close> and whose
  data have \<^verbatim>\<open>value\<close> or \<^verbatim>\<open>amount\<close> gives a balance.
\<close>

definition parse_token_balance :: "dict \<Rightarrow> exn + token_balance option" where
  "parse_token_balance resource =
     (case dict_get resource ''type'' (JStr '''') of
        JStr rtype \<Rightarrow>
          if str_contains ''coin'' (lower rtype) \<or> str_contains ''token'' (lower rtype)
          then let raw_data = dict_get resource ''data'' (JObj [])
               in ebind (py_in ''value'' raw_data) (\<lambda>has_value.
                  ebind (if has_value then Inr True else py_in ''amount'' raw_data) (\<lambda>has_any.
                    if has_any
                    then (case raw_data of
                            JObj d \<Rightarrow>
                              Inr (Some \<lparr>name = extract_token_name rtype,
                                         amount = dict_get d ''value'' (dict_get d ''amount'' (JInt 0)),
                                         resource_type = JStr rtype\<rparr>)
                          | _ \<Rightarrow> Inl AttributeError)
                    else Inr None))
          else Inr None
      | _ \<Rightarrow> Inl AttributeError)"

fun parse_token_balances :: "dict list \<Rightarrow> exn + token_balance list" where
  "parse_token_balances [] = Inr []"
| "parse_token_balances (resource # resources) =
     ebind (parse_token_balance resource) (\<lambda>found.
     ebind (parse_token_balances resources) (\<lambda>rest.
       Inr ((case found of None \<Rightarrow> [] | Some b \<Rightarrow> [b]) @ rest)))"

record account_info =
  owner_address :: string
  nfts :: "dict list"
  token_balances :: "token_balance list"
  account_activities :: activities
  is_scammer :: bool
  verification_results :: nfts_result

text \<open>
  \<^verbatim>\<open>get_nft_data_by_owner\<close> answers one of two dictionaries. \<open>No_resources_found\<close> is the
  literal \<^verbatim>\<open>{"nfts": [], "is_verified": False, "reason": "No resources found"}\<close> of the early
  return; \<open>Account_info\<close> is the dictionary \<^verbatim>\<open>account_info\<close> that the function ends with.
\<close>

datatype owner_report = No_resources_found | Account_info account_info

fun report_keys :: "owner_report \<Rightarrow> string list" where
  "report_keys No_resources_found = [''nfts'', ''is_verified'', ''reason'']"
| "report_keys (Account_info info) =
     [''owner_address'', ''nfts'', ''token_balances'', ''account_activities'', ''is_scammer'',
      ''verification_results'']"

text \<open>The value of the report under the key \<^verbatim>\<open>is_scammer\<close>, when it has this key.\<close>

fun report_is_scammer :: "owner_report \<Rightarrow> bool option" where
  "report_is_scammer No_resources_found = None"
| "report_is_scammer (Account_info info) = Some (is_scammer info)"

definition get_nft_data_by_owner ::
  "'dt clock \<Rightarrow> aptos_api \<Rightarrow> string set \<Rightarrow> string \<Rightarrow> exn + owner_report" where
  "get_nft_data_by_owner clk api known_scammers owner =
     (case get_account_resources api owner of
        None \<Rightarrow> Inr No_resources_found
      | Some [] \<Rightarrow> Inr No_resources_found
      | Some resources \<Rightarrow>
          ebind (parse_nfts resources) (\<lambda>found_nfts.
          ebind (parse_token_balances resources) (\<lambda>balances.
          let tx_history = get_account_transactions api owner
          in ebind (parse_account_activities tx_history) (\<lambda>parsed_activities.
             ebind (verify_nfts clk found_nfts tx_history) (\<lambda>verification_result.
               Inr (Account_info
                     \<lparr>owner_address = owner,
                      nfts = found_nfts,
                      token_balances = balances,
                      account_activities = parsed_activities,
                      is_scammer = (owner \<in> known_scammers),
                      verification_results = verification_result\<rparr>))))))"

section \<open>Reference notions and example data\<close>

text \<open>
  Two ways to count the transfers in a history, independent of the loop of the program:
  \<open>typed_transfer_count\<close> counts the transactions whose type, as it is written, contains
  \<^verbatim>\<open>transfer\<close>; \<open>lowered_transfer_count\<close> counts those whose lower-cased type does. A
  missing type counts as the empty string, a type that is not a string counts for neither.
\<close>

definition type_string :: "dict \<Rightarrow> string option" where
  "type_string tx = (case dict_get tx ''type'' (JStr '''') of JStr s \<Rightarrow> Some s | _ \<Rightarrow> None)"

definition typed_transfer_count :: "dict list \<Rightarrow> int" where
  "typed_transfer_count txs =
     int (length (filter (\<lambda>tx. case type_string tx of
                                    None \<Rightarrow> False
                                  | Some s \<Rightarrow> str_contains ''transfer'' s) txs))"

definition lowered_transfer_count :: "dict list \<Rightarrow> int" where
  "lowered_transfer_count txs =
     int (length (filter (\<lambda>tx. case type_string tx of
                                    None \<Rightarrow> False
                                  | Some s \<Rightarrow> str_contains ''transfer'' (lower s)) txs))"

text \<open>
  A clock for the examples. It stands at noon of 1 March 2024 and parses two instants, ten
  days and 365 days before; a parsed instant is kept as its distance in whole days. Every
  other string is rejected, as \<^verbatim>\<open>datetime.fromisoformat\<close> rejects a malformed one.
\<close>

definition sample_clock :: "int clock" where
  "sample_clock =
     \<lparr>now_isoformat = ''2024-03-01T12:00:00'',
      fromisoformat =
        (\<lambda>s. if s = ''2024-02-20T12:00:00'' then Inr 10
             else if s = ''2023-03-02T12:00:00'' then Inr 365
             else Inl ValueError),
      days_before_now = (\<lambda>d. Inr d)\<rparr>"

text \<open>
  A gateway for the examples: the account \<^verbatim>\<open>0xbad\<close> holds one token resource and has one
  transaction; every other account is unknown to the node.
\<close>

definition sample_api :: aptos_api where
  "sample_api =
     \<lparr>get_account_resources =
        (\<lambda>a. if a = ''0xbad''
             then Some [[(''type'', JStr ''0x3::token::TokenStore''),
                         (''data'', JObj [(''name'', JStr ''Ape''), (''token_id'', JStr ''7''),
                                          (''uri'', JStr ''ipfs://ape'')])]]
             else None),
      get_account_transactions =
        (\<lambda>a. if a = ''0xbad''
             then Some [[(''type'', JStr ''user_transaction''),
                         (''timestamp'', JStr ''2024-02-20T12:00:00''),
                         (''events'', JList [JObj [(''type'', JStr ''0x3::token::DepositEvent'')]])]]
             else None)\<rparr>"

section \<open>Properties\<close>

subsection \<open>Lemmas on the scoring functions\<close>

lemma analyze_nft_risk_nonneg:
  "analyze_nft_risk nft tx_history = Inr r \<Longrightarrow> 0 \<le> risk_score r"
  by (auto simp: analyze_nft_risk_def ebind_def Let_def
      split: sum.splits option.splits list.splits if_splits)

lemma verify_collection_nonneg:
  "verify_collection clk c tx_history = Inr r \<Longrightarrow> 0 \<le> risk_score r"
  by (auto simp: verify_collection_def ebind_def Let_def
      split: sum.splits option.splits list.splits if_splits)

lemma verify_collection_no_supply:
  assumes "map_of c ''supply'' = None" and "verify_collection clk c tx_history = Inr r"
  shows "''ZERO_SUPPLY'' \<in> set (risk_factors r)
    \<and> risk_score r =
        (if ''NEW_CREATOR_ACCOUNT'' \<in> set (risk_factors r) then 25 else 0) + 50
        + (if ''INCOMPLETE_METADATA'' \<in> set (risk_factors r) then 30 else 0)"
  using assms
  by (auto simp: verify_collection_def ebind_def Let_def dict_get_def
      split: sum.splits option.splits list.splits if_splits)

lemma verify_collection_supply_tags:
  assumes "verify_collection clk c tx_history = Inr r"
  shows "\<not> (''ZERO_SUPPLY'' \<in> set (risk_factors r)
            \<and> ''VERY_LOW_SUPPLY'' \<in> set (risk_factors r))"
  using assms
  by (auto simp: verify_collection_def ebind_def Let_def
      split: sum.splits option.splits list.splits if_splits)

text \<open>
  The loop that counts the transfers returns the number of transactions whose lower-cased
  type contains \<^verbatim>\<open>transfer\<close>, and it returns exactly when every type is a string or missing.
\<close>

lemma count_transfers_lowered:
  "count_transfers txs nft = Inr c \<Longrightarrow> c = lowered_transfer_count txs"
proof (induction txs arbitrary: c)
  case Nil
  then show ?case by (simp add: lowered_transfer_count_def)
next
  case (Cons tx txs)
  then show ?case
    by (auto simp: ebind_def is_nft_transfer_def get_lower_def type_string_def
        lowered_transfer_count_def split: sum.splits json.splits if_splits)
qed

lemma is_nft_transfer_returns:
  "(\<exists>b. is_nft_transfer tx nft = Inr b) \<longleftrightarrow> type_string tx \<noteq> None"
  by (auto simp: ebind_def is_nft_transfer_def get_lower_def type_string_def
      split: json.splits)

lemma count_transfers_returns:
  "(\<exists>c. count_transfers txs nft = Inr c) \<longleftrightarrow> (\<forall>tx \<in> set txs. type_string tx \<noteq> None)"
proof (induction txs)
  case Nil
  show ?case by simp
next
  case (Cons tx txs)
  show ?case
  proof (cases "is_nft_transfer tx nft")
    case (Inl e)
    with is_nft_transfer_returns [of tx nft] show ?thesis by (simp add: ebind_def)
  next
    case (Inr b)
    with is_nft_transfer_returns [of tx nft] have ok: "type_string tx \<noteq> None" by auto
    show ?thesis
    proof (cases "count_transfers txs nft")
      case (Inl e)
      with Cons Inr ok show ?thesis by (auto simp: ebind_def)
    next
      case (Inr c)
      with Cons \<open>is_nft_transfer tx nft = Inr b\<close> ok show ?thesis by (auto simp: ebind_def)
    qed
  qed
qed

text \<open>The scoring of one NFT with a history returns exactly when both of its parts do.\<close>

lemma analyze_nft_risk_returns:
  "(\<exists>r. analyze_nft_risk nft (Some txs) = Inr r) \<longleftrightarrow>
     (\<exists>complete. verify_nft_metadata nft = Inr complete)
     \<and> (\<forall>tx \<in> set txs. type_string tx \<noteq> None)"
proof (cases "verify_nft_metadata nft")
  case (Inl e)
  then show ?thesis by (simp add: analyze_nft_risk_def ebind_def)
next
  case (Inr complete)
  show ?thesis
  proof (cases txs)
    case Nil
    with Inr show ?thesis by (simp add: analyze_nft_risk_def ebind_def Let_def)
  next
    case (Cons tx txs')
    show ?thesis
    proof (cases "count_transfers txs nft")
      case (Inl e)
      with count_transfers_returns [of txs nft] have "\<not> (\<forall>tx \<in> set txs. type_string tx \<noteq> None)"
        by simp
      with Inl Inr Cons show ?thesis
        by (simp add: analyze_nft_risk_def ebind_def Let_def)
    next
      case (Inr c)
      with count_transfers_returns [of txs nft] have "\<forall>tx \<in> set txs. type_string tx \<noteq> None"
        by blast
      with Inr \<open>verify_nft_metadata nft = Inr complete\<close> Cons show ?thesis
        by (simp add: analyze_nft_risk_def ebind_def Let_def)
    qed
  qed
qed

subsection \<open>Token names\<close>

text \<open>
  Claim C9. \<^verbatim>\<open>_extract_token_name\<close> answers \<^verbatim>\<open>AptosCoin\<close> for
  \<^verbatim>\<open>0x1::coin::CoinStore<0x1::aptos_coin::AptosCoin>\<close>, the last segment of the bracketed part,
  and \<^verbatim>\<open>B\<close> for \<^verbatim>\<open>0x1::a::B\<close>, the third segment of a name without brackets.
\<close>

theorem extract_token_name_examples:
  "extract_token_name ''0x1::coin::CoinStore<0x1::aptos_coin::AptosCoin>'' = ''AptosCoin''
   \<and> extract_token_name ''0x1::a::B'' = ''B''"
  by (simp add: extract_token_name_def token_name_try_def token_name_parts_def split_def
      py_index_def ebind_def)

subsection \<open>Account activities\<close>

text \<open>
  Claim C1 says that an absent transaction history gives the summary of no activity. The
  program does not: \<^verbatim>\<open>_parse_account_activities\<close> iterates over its argument without a test,
  so \<^verbatim>\<open>None\<close> raises \<^verbatim>\<open>TypeError\<close>; only the empty list gives the summary with every
  counter at zero. The exception leaves \<^verbatim>\<open>get_nft_data_by_owner\<close> too: for an account with
  resources whose transactions the node fails to deliver there is no report at all.
\<close>

theorem parse_account_activities_absent:
  "parse_account_activities None = Inl TypeError
   \<and> parse_account_activities (Some []) = Inr no_activities
   \<and> get_nft_data_by_owner sample_clock
        (sample_api\<lparr>get_account_transactions := (\<lambda>a. None)\<rparr>) {} ''0xbad'' = Inl TypeError"
  by (simp add: parse_account_activities_def get_nft_data_by_owner_def sample_api_def
      ebind_def format_nft_def parse_token_balance_def dict_get_def has_key_def
      lower_def lower_char_def)

subsection \<open>Scoring a collection without supply and metadata\<close>

text \<open>
  Claim C5. For a collection whose supply is 0 and whose description and uri are falsy, scored
  with an empty transaction history, \<^verbatim>\<open>_verify_collection\<close> returns the score 80, which is 50
  for the supply and 30 for the metadata, the factors \<^verbatim>\<open>ZERO_SUPPLY\<close> and
  \<^verbatim>\<open>INCOMPLETE_METADATA\<close> and no other, and the verdict high risk.
\<close>

theorem score_collection_zero_supply_no_metadata:
  assumes "map_of collection_data ''supply'' = Some (JInt 0)"
    and "\<not> truthy (dict_get collection_data ''description'' JNull)"
    and "\<not> truthy (dict_get collection_data ''uri'' JNull)"
  shows "verify_collection clk collection_data (Some []) =
           Inr \<lparr>risk_score = 80,
                risk_factors = [''ZERO_SUPPLY'', ''INCOMPLETE_METADATA''],
                is_high_risk = True,
                is_verified = False,
                verification_timestamp = now_isoformat clk\<rparr>"
  using assms by (simp add: verify_collection_def ebind_def dict_get_def)

theorem score_collection_zero_supply_no_metadata_witness:
  "map_of [(''supply'', JInt 0), (''description'', JNull), (''uri'', JNull)] ''supply''
     = Some (JInt 0)
   \<and> \<not> truthy (dict_get [(''supply'', JInt 0), (''description'', JNull), (''uri'', JNull)]
                  ''description'' JNull)
   \<and> \<not> truthy (dict_get [(''supply'', JInt 0), (''description'', JNull), (''uri'', JNull)]
                  ''uri'' JNull)
   \<and> verify_collection sample_clock
        [(''supply'', JInt 0), (''description'', JNull), (''uri'', JNull)] (Some []) =
      Inr \<lparr>risk_score = 80,
           risk_factors = [''ZERO_SUPPLY'', ''INCOMPLETE_METADATA''],
           is_high_risk = True,
           is_verified = False,
           verification_timestamp = ''2024-03-01T12:00:00''\<rparr>
   \<and> ''NEW_CREATOR_ACCOUNT'' \<notin> set [''ZERO_SUPPLY'', ''INCOMPLETE_METADATA'']"
  using score_collection_zero_supply_no_metadata
          [of "[(''supply'', JInt 0), (''description'', JNull), (''uri'', JNull)]" sample_clock]
  by (simp add: dict_get_def sample_clock_def)

subsection \<open>Scoring an NFT without a metadata key\<close>

text \<open>
  Claim C6. For an NFT dictionary that has the keys \<^verbatim>\<open>name\<close> and \<^verbatim>\<open>id\<close> and no key
  \<^verbatim>\<open>metadata\<close>, scored without a transaction history (absent or empty),
  \<^verbatim>\<open>_analyze_nft_risk\<close> returns the score 0, no factor and the verdict not high risk: the
  missing metadata dictionary alone does not count as incomplete metadata.
\<close>

theorem score_nft_without_metadata_key:
  assumes "has_key nft ''name''" and "has_key nft ''id''" and "\<not> has_key nft ''metadata''"
  shows "analyze_nft_risk nft None =
           Inr \<lparr>risk_score = 0, risk_factors = [], is_high_risk = False\<rparr>
         \<and> analyze_nft_risk nft (Some []) =
           Inr \<lparr>risk_score = 0, risk_factors = [], is_high_risk = False\<rparr>"
  using assms
  by (simp add: analyze_nft_risk_def verify_nft_metadata_def ebind_def has_key_def)

theorem score_nft_without_metadata_key_witness:
  "has_key [(''name'', JStr ''X''), (''id'', JStr ''1'')] ''name''
   \<and> has_key [(''name'', JStr ''X''), (''id'', JStr ''1'')] ''id''
   \<and> \<not> has_key [(''name'', JStr ''X''), (''id'', JStr ''1'')] ''metadata''
   \<and> analyze_nft_risk [(''name'', JStr ''X''), (''id'', JStr ''1'')] None =
       Inr \<lparr>risk_score = 0, risk_factors = [], is_high_risk = False\<rparr>"
  using score_nft_without_metadata_key [of "[(''name'', JStr ''X''), (''id'', JStr ''1'')]"]
  by (simp add: has_key_def)

subsection \<open>Transfer velocity\<close>

text \<open>
  Claim C3 counts the transactions whose type contains \<^verbatim>\<open>transfer\<close>. The program tests the
  lower-cased type, so it also counts a type written in capitals: for four transactions of
  type \<^verbatim>\<open>TRANSFER\<close>, none of which contains \<^verbatim>\<open>transfer\<close> as written, the score gains 20 and
  the factor \<^verbatim>\<open>HIGH_TRANSFER_VELOCITY\<close> is appended.
\<close>

theorem transfer_count_counterexample:
  "typed_transfer_count
     [[(''type'', JStr ''TRANSFER'')], [(''type'', JStr ''TRANSFER'')],
      [(''type'', JStr ''TRANSFER'')], [(''type'', JStr ''TRANSFER'')]] = 0
   \<and> analyze_nft_risk [(''name'', JStr ''X''), (''id'', JStr ''1'')]
       (Some [[(''type'', JStr ''TRANSFER'')], [(''type'', JStr ''TRANSFER'')],
              [(''type'', JStr ''TRANSFER'')], [(''type'', JStr ''TRANSFER'')]])
     = Inr \<lparr>risk_score = 20, risk_factors = [''HIGH_TRANSFER_VELOCITY''], is_high_risk = False\<rparr>"
  by (simp add: typed_transfer_count_def type_string_def analyze_nft_risk_def
      verify_nft_metadata_def has_key_def ebind_def is_nft_transfer_def get_lower_def
      dict_get_def lower_def lower_char_def)

text \<open>
  Claim C3, with the case of the letters set right. For every NFT and every present
  transaction history for which \<^verbatim>\<open>_analyze_nft_risk\<close> returns, let \<open>c\<close> be the number of
  transactions whose lower-cased type contains \<^verbatim>\<open>transfer\<close>, whatever NFT they concern. The
  factor \<^verbatim>\<open>HIGH_TRANSFER_VELOCITY\<close> is among the factors exactly when \<open>c > 3\<close>, and the score is
  the 40 points of incomplete metadata, if that factor is present, plus \<open>20 * (c - 3)\<close> when
  \<open>c > 3\<close>. With five such transactions the score gains 40.
\<close>

theorem transfer_velocity_rule:
  assumes "analyze_nft_risk nft (Some txs) = Inr r"
  shows "(''HIGH_TRANSFER_VELOCITY'' \<in> set (risk_factors r) \<longleftrightarrow> 3 < lowered_transfer_count txs)
    \<and> risk_score r =
        (if ''INCOMPLETE_METADATA'' \<in> set (risk_factors r) then 40 else 0)
        + (if 3 < lowered_transfer_count txs then 20 * (lowered_transfer_count txs - 3) else 0)"
proof (cases txs)
  case Nil
  with assms show ?thesis
    by (auto simp: analyze_nft_risk_def ebind_def Let_def lowered_transfer_count_def
        split: sum.splits if_splits)
next
  case (Cons tx txs')
  from assms Cons obtain complete c where
    m: "verify_nft_metadata nft = Inr complete" and c: "count_transfers txs nft = Inr c"
    by (auto simp: analyze_nft_risk_def ebind_def Let_def split: sum.splits)
  from c have ceq: "c = lowered_transfer_count txs" by (rule count_transfers_lowered)
  from assms Cons m c ceq show ?thesis
    by (auto simp: analyze_nft_risk_def ebind_def Let_def split: if_splits)
qed

theorem transfer_velocity_rule_witness:
  "analyze_nft_risk [(''name'', JStr ''X''), (''id'', JStr ''1'')]
     (Some [[(''type'', JStr ''0x3::token::Transfer'')], [(''type'', JStr ''transfer'')],
            [(''type'', JStr ''TRANSFER'')], [(''type'', JStr ''nft_transfer'')],
            [(''type'', JStr ''transfer_nft'')], [(''type'', JStr ''user_transaction'')]])
   = Inr \<lparr>risk_score = 40, risk_factors = [''HIGH_TRANSFER_VELOCITY''], is_high_risk = False\<rparr>
   \<and> lowered_transfer_count
        [[(''type'', JStr ''0x3::token::Transfer'')], [(''type'', JStr ''transfer'')],
         [(''type'', JStr ''TRANSFER'')], [(''type'', JStr ''nft_transfer'')],
         [(''type'', JStr ''transfer_nft'')], [(''type'', JStr ''user_transaction'')]] = 5"
proof -
  have run: "analyze_nft_risk [(''name'', JStr ''X''), (''id'', JStr ''1'')]
     (Some [[(''type'', JStr ''0x3::token::Transfer'')], [(''type'', JStr ''transfer'')],
            [(''type'', JStr ''TRANSFER'')], [(''type'', JStr ''nft_transfer'')],
            [(''type'', JStr ''transfer_nft'')], [(''type'', JStr ''user_transaction'')]])
   = Inr \<lparr>risk_score = 40, risk_factors = [''HIGH_TRANSFER_VELOCITY''], is_high_risk = False\<rparr>"
    by (simp add: analyze_nft_risk_def verify_nft_metadata_def has_key_def ebind_def
        is_nft_transfer_def get_lower_def dict_get_def lower_def lower_char_def)
  from transfer_velocity_rule [OF run] have "3 < lowered_transfer_count
        [[(''type'', JStr ''0x3::token::Transfer'')], [(''type'', JStr ''transfer'')],
         [(''type'', JStr ''TRANSFER'')], [(''type'', JStr ''nft_transfer'')],
         [(''type'', JStr ''transfer_nft'')], [(''type'', JStr ''user_transaction'')]]
     \<and> 40 = 20 * (lowered_transfer_count
        [[(''type'', JStr ''0x3::token::Transfer'')], [(''type'', JStr ''transfer'')],
         [(''type'', JStr ''TRANSFER'')], [(''type'', JStr ''nft_transfer'')],
         [(''type'', JStr ''transfer_nft'')], [(''type'', JStr ''user_transaction'')]] - 3)"
    by (simp split: if_splits)
  then show ?thesis using run by simp
qed

subsection \<open>A malformed timestamp\<close>

text \<open>
  Claim C4. When the transaction that \<^verbatim>\<open>min\<close> selects from a history that is not empty
  carries a timestamp string that \<^verbatim>\<open>datetime.fromisoformat\<close> rejects with \<^verbatim>\<open>ValueError\<close>,
  \<^verbatim>\<open>_verify_collection\<close> raises this \<^verbatim>\<open>ValueError\<close>: nothing in the function catches it, and
  no score is returned. The history of the example has two transactions; the malformed
  timestamp \<^verbatim>\<open>01/02/2024\<close> is the smaller string, so it is the one that is parsed.
\<close>

theorem malformed_timestamp_propagates:
  assumes "txs \<noteq> []"
    and "oldest_tx clk txs = Inr oldest"
    and "map_of oldest ''timestamp'' = Some (JStr s)"
    and "fromisoformat clk s = Inl ValueError"
  shows "verify_collection clk collection (Some txs) = Inl ValueError"
  using assms
  by (cases txs) (simp_all add: verify_collection_def account_age_days_def ebind_def dict_get_def)

theorem malformed_timestamp_propagates_witness:
  "[[(''timestamp'', JStr ''2024-02-20T12:00:00'')], [(''timestamp'', JStr ''01/02/2024'')]] \<noteq> []
   \<and> oldest_tx sample_clock
        [[(''timestamp'', JStr ''2024-02-20T12:00:00'')], [(''timestamp'', JStr ''01/02/2024'')]]
      = Inr [(''timestamp'', JStr ''01/02/2024'')]
   \<and> map_of [(''timestamp'', JStr ''01/02/2024'')] ''timestamp'' = Some (JStr ''01/02/2024'')
   \<and> fromisoformat sample_clock ''01/02/2024'' = Inl ValueError
   \<and> verify_collection sample_clock [(''supply'', JInt 100)]
        (Some [[(''timestamp'', JStr ''2024-02-20T12:00:00'')],
               [(''timestamp'', JStr ''01/02/2024'')]])
      = Inl ValueError"
proof -
  have old: "oldest_tx sample_clock
        [[(''timestamp'', JStr ''2024-02-20T12:00:00'')], [(''timestamp'', JStr ''01/02/2024'')]]
      = Inr [(''timestamp'', JStr ''01/02/2024'')]"
    by (simp add: oldest_tx_def ebind_def dict_get_def)
  have bad: "fromisoformat sample_clock ''01/02/2024'' = Inl ValueError"
    by (simp add: sample_clock_def)
  show ?thesis
    using malformed_timestamp_propagates [OF _ old _ bad, of "[(''supply'', JInt 100)]"] old bad
    by simp
qed

subsection \<open>The score is never negative\<close>

text \<open>
  Claim C7. Whatever the NFT, the collection and the transaction history, a score that
  \<^verbatim>\<open>_analyze_nft_risk\<close> or \<^verbatim>\<open>_verify_collection\<close> returns is an integer that is not negative:
  every rule adds points, none takes points away.
\<close>

theorem risk_score_never_negative:
  "(analyze_nft_risk nft tx_history = Inr r \<longrightarrow> 0 \<le> risk_score r)
   \<and> (verify_collection clk collection tx_history' = Inr r' \<longrightarrow> 0 \<le> risk_score r')"
  using analyze_nft_risk_nonneg verify_collection_nonneg by blast

theorem risk_score_never_negative_witness:
  "analyze_nft_risk [(''id'', JStr ''1'')]
     (Some [[(''type'', JStr ''transfer'')], [(''type'', JStr ''transfer'')],
            [(''type'', JStr ''transfer'')], [(''type'', JStr ''transfer'')],
            [(''type'', JStr ''transfer'')]])
     = Inr \<lparr>risk_score = 80,
            risk_factors = [''INCOMPLETE_METADATA'', ''HIGH_TRANSFER_VELOCITY''],
            is_high_risk = True\<rparr>
   \<and> verify_collection sample_clock [(''supply'', JInt 3)]
       (Some [[(''timestamp'', JStr ''2024-02-20T12:00:00'')]])
     = Inr \<lparr>risk_score = 70,
            risk_factors = [''NEW_CREATOR_ACCOUNT'', ''VERY_LOW_SUPPLY'', ''INCOMPLETE_METADATA''],
            is_high_risk = True, is_verified = False,
            verification_timestamp = ''2024-03-01T12:00:00''\<rparr>
   \<and> (0::int) \<le> 80 \<and> (0::int) \<le> 70"
proof -
  have nft: "analyze_nft_risk [(''id'', JStr ''1'')]
     (Some [[(''type'', JStr ''transfer'')], [(''type'', JStr ''transfer'')],
            [(''type'', JStr ''transfer'')], [(''type'', JStr ''transfer'')],
            [(''type'', JStr ''transfer'')]])
     = Inr \<lparr>risk_score = 80,
            risk_factors = [''INCOMPLETE_METADATA'', ''HIGH_TRANSFER_VELOCITY''],
            is_high_risk = True\<rparr>"
    by (simp add: analyze_nft_risk_def verify_nft_metadata_def has_key_def ebind_def
        is_nft_transfer_def get_lower_def dict_get_def lower_def lower_char_def)
  have coll: "verify_collection sample_clock [(''supply'', JInt 3)]
       (Some [[(''timestamp'', JStr ''2024-02-20T12:00:00'')]])
     = Inr \<lparr>risk_score = 70,
            risk_factors = [''NEW_CREATOR_ACCOUNT'', ''VERY_LOW_SUPPLY'', ''INCOMPLETE_METADATA''],
            is_high_risk = True, is_verified = False,
            verification_timestamp = ''2024-03-01T12:00:00''\<rparr>"
    by (simp add: verify_collection_def oldest_tx_def account_age_days_def ebind_def
        dict_get_def sample_clock_def)
  from risk_score_never_negative
         [of "[(''id'', JStr ''1'')]" _ _ sample_clock "[(''supply'', JInt 3)]"] nft coll
  show ?thesis by simp
qed

subsection \<open>Verifying a list of NFTs\<close>

text \<open>
  Claim C8. For the empty list of NFTs and any transaction history, \<^verbatim>\<open>_verify_nfts\<close> returns
  the mean score 0, no questionable NFT and the verdict verified. For every list of NFTs on
  which it returns, the result is verified exactly when the list of questionable NFTs is
  empty.
\<close>

theorem aggregate_nft_verification:
  "verify_nfts clk [] tx_history =
     Inr \<lparr>average_risk_score = 0, questionable_nfts = [], is_verified = True,
          verification_timestamp = now_isoformat clk\<rparr>
   \<and> (verify_nfts clk nft_list tx_history' = Inr r \<longrightarrow>
        (nfts_result.is_verified r \<longleftrightarrow> questionable_nfts r = []))"
  by (auto simp: verify_nfts_def ebind_def split: sum.splits)

theorem aggregate_nft_verification_witness:
  "verify_nfts sample_clock [[(''name'', JStr ''X''), (''id'', JStr ''1'')], [(''id'', JStr ''2'')]]
     (Some [[(''type'', JStr ''transfer'')], [(''type'', JStr ''transfer'')],
            [(''type'', JStr ''transfer'')], [(''type'', JStr ''transfer'')],
            [(''type'', JStr ''transfer'')]])
   = Inr \<lparr>average_risk_score = 60,
          questionable_nfts =
            [\<lparr>nft_data = [(''id'', JStr ''2'')],
              risk_assessment =
                \<lparr>risk_score = 80,
                 risk_factors = [''INCOMPLETE_METADATA'', ''HIGH_TRANSFER_VELOCITY''],
                 is_high_risk = True\<rparr>\<rparr>],
          is_verified = False,
          verification_timestamp = ''2024-03-01T12:00:00''\<rparr>
   \<and> [\<lparr>nft_data = [(''id'', JStr ''2'')],
         risk_assessment =
           \<lparr>risk_score = 80,
            risk_factors = [''INCOMPLETE_METADATA'', ''HIGH_TRANSFER_VELOCITY''],
            is_high_risk = True\<rparr>\<rparr>] \<noteq> []"
proof -
  have run: "verify_nfts sample_clock
       [[(''name'', JStr ''X''), (''id'', JStr ''1'')], [(''id'', JStr ''2'')]]
     (Some [[(''type'', JStr ''transfer'')], [(''type'', JStr ''transfer'')],
            [(''type'', JStr ''transfer'')], [(''type'', JStr ''transfer'')],
            [(''type'', JStr ''transfer'')]])
   = Inr \<lparr>average_risk_score = 60,
          questionable_nfts =
            [\<lparr>nft_data = [(''id'', JStr ''2'')],
              risk_assessment =
                \<lparr>risk_score = 80,
                 risk_factors = [''INCOMPLETE_METADATA'', ''HIGH_TRANSFER_VELOCITY''],
                 is_high_risk = True\<rparr>\<rparr>],
          is_verified = False,
          verification_timestamp = ''2024-03-01T12:00:00''\<rparr>"
    by (simp add: verify_nfts_def analyze_nft_risk_def verify_nft_metadata_def has_key_def
        ebind_def is_nft_transfer_def get_lower_def dict_get_def lower_def lower_char_def
        sample_clock_def)
  from aggregate_nft_verification
         [of sample_clock _
             "[[(''name'', JStr ''X''), (''id'', JStr ''1'')], [(''id'', JStr ''2'')]]"] run
  show ?thesis by simp
qed

subsection \<open>A collection without a supply\<close>

text \<open>
  Claim C10. For a collection dictionary without the key \<^verbatim>\<open>supply\<close> the supply is read as
  0: \<^verbatim>\<open>_verify_collection\<close> returns when there is no history, and every result it returns has
  the factor \<^verbatim>\<open>ZERO_SUPPLY\<close> and a score made of its 50 points, the 25 points of a new creator
  account and the 30 points of incomplete metadata where these factors are present. For
  every collection, \<^verbatim>\<open>ZERO_SUPPLY\<close> and \<^verbatim>\<open>VERY_LOW_SUPPLY\<close> are never both among the factors.
\<close>

theorem missing_supply_counts_as_zero:
  "(map_of collection ''supply'' = None \<longrightarrow>
      (\<exists>r. verify_collection clk collection None = Inr r)
      \<and> (verify_collection clk collection tx_history = Inr r \<longrightarrow>
           ''ZERO_SUPPLY'' \<in> set (risk_factors r)
           \<and> risk_score r =
               (if ''NEW_CREATOR_ACCOUNT'' \<in> set (risk_factors r) then 25 else 0) + 50
               + (if ''INCOMPLETE_METADATA'' \<in> set (risk_factors r) then 30 else 0)))
   \<and> (verify_collection clk collection tx_history = Inr r \<longrightarrow>
        \<not> (''ZERO_SUPPLY'' \<in> set (risk_factors r)
           \<and> ''VERY_LOW_SUPPLY'' \<in> set (risk_factors r)))"
proof -
  have "\<exists>r. verify_collection clk collection None = Inr r"
    if "map_of collection ''supply'' = None"
    using that by (simp add: verify_collection_def ebind_def dict_get_def Let_def)
  then show ?thesis
    using verify_collection_no_supply [of collection clk tx_history r]
      verify_collection_supply_tags [of clk collection tx_history r]
    by blast
qed

theorem missing_supply_counts_as_zero_witness:
  "map_of [(''description'', JStr ''Apes''), (''uri'', JStr ''ipfs://apes'')] ''supply'' = None
   \<and> verify_collection sample_clock
        [(''description'', JStr ''Apes''), (''uri'', JStr ''ipfs://apes'')]
        (Some [[(''timestamp'', JStr ''2023-03-02T12:00:00'')]])
      = Inr \<lparr>risk_score = 50, risk_factors = [''ZERO_SUPPLY''], is_high_risk = False,
             is_verified = True, verification_timestamp = ''2024-03-01T12:00:00''\<rparr>
   \<and> ''ZERO_SUPPLY'' \<in> set [''ZERO_SUPPLY'']
   \<and> ''VERY_LOW_SUPPLY'' \<notin> set [''ZERO_SUPPLY'']"
proof -
  have run: "verify_collection sample_clock
        [(''description'', JStr ''Apes''), (''uri'', JStr ''ipfs://apes'')]
        (Some [[(''timestamp'', JStr ''2023-03-02T12:00:00'')]])
      = Inr \<lparr>risk_score = 50, risk_factors = [''ZERO_SUPPLY''], is_high_risk = False,
             is_verified = True, verification_timestamp = ''2024-03-01T12:00:00''\<rparr>"
    by (simp add: verify_collection_def oldest_tx_def account_age_days_def ebind_def
        dict_get_def sample_clock_def)
  from missing_supply_counts_as_zero
         [of "[(''description'', JStr ''Apes''), (''uri'', JStr ''ipfs://apes'')]" sample_clock
             "Some [[(''timestamp'', JStr ''2023-03-02T12:00:00'')]]"] run
  show ?thesis by simp
qed

subsection \<open>The scammer flag of the owner report\<close>

text \<open>
  Claim C2 says that the report on an owner from the registry has \<^verbatim>\<open>is_scammer\<close> true also
  when the node delivers no resources. The program returns early in that case, with a
  dictionary that has no key \<^verbatim>\<open>is_scammer\<close>: the account \<^verbatim>\<open>0xghost\<close> is in the registry and
  unknown to the node.
\<close>

theorem owner_report_scammer_counterexample:
  "''0xghost'' \<in> {''0xghost''}
   \<and> get_nft_data_by_owner sample_clock sample_api {''0xghost''} ''0xghost''
       = Inr No_resources_found
   \<and> report_is_scammer No_resources_found = None
   \<and> ''is_scammer'' \<notin> set (report_keys No_resources_found)"
  by (simp add: get_nft_data_by_owner_def sample_api_def)

text \<open>
  Claim C2, restricted to the accounts with resources. For an owner from the registry for
  whom the node delivers a list of resources that is not empty, every report that
  \<^verbatim>\<open>get_nft_data_by_owner\<close> returns has the key \<^verbatim>\<open>is_scammer\<close> with the value true, whatever
  the resources are. When the node delivers nothing or the empty list, the report is the
  dictionary of the early return.
\<close>

theorem owner_report_scammer_flag:
  "(owner \<in> known_scammers \<longrightarrow>
      get_account_resources api owner = Some resources \<longrightarrow> resources \<noteq> [] \<longrightarrow>
      get_nft_data_by_owner clk api known_scammers owner = Inr report \<longrightarrow>
      report_is_scammer report = Some True \<and> ''is_scammer'' \<in> set (report_keys report))
   \<and> (get_account_resources api owner = None \<or> get_account_resources api owner = Some [] \<longrightarrow>
        get_nft_data_by_owner clk api known_scammers owner = Inr No_resources_found)"
  by (auto simp: get_nft_data_by_owner_def ebind_def Let_def
      split: sum.splits option.splits list.splits)

theorem owner_report_scammer_flag_witness:
  "''0xbad'' \<in> {''0xbad'', ''0xworse''}
   \<and> get_account_resources sample_api ''0xbad''
       = Some [[(''type'', JStr ''0x3::token::TokenStore''),
                (''data'', JObj [(''name'', JStr ''Ape''), (''token_id'', JStr ''7''),
                                 (''uri'', JStr ''ipfs://ape'')])]]
   \<and> get_nft_data_by_owner sample_clock sample_api {''0xbad'', ''0xworse''} ''0xbad''
       = Inr (Account_info
               \<lparr>owner_address = ''0xbad'',
                nfts =
                  [[(''name'', JStr ''Ape''), (''id'', JStr ''7''),
                    (''collection'', JStr ''N/A''), (''creator'', JStr ''N/A''),
                    (''metadata'',
                       JObj [(''name'', JStr ''Ape''), (''token_id'', JStr ''7''),
                             (''uri'', JStr ''ipfs://ape'')]),
                    (''resource_type'', JStr ''0x3::token::TokenStore''),
                    (''uri'', JStr ''ipfs://ape'')]],
                token_balances = [],
                account_activities =
                  \<lparr>nft_staking = False,
                   token_swaps = \<lparr>swap_count = 0, listing_count = 0\<rparr>,
                   nft_transfers = \<lparr>deposit_count = 1, withdraw_count = 0\<rparr>,
                   property_modifications = 0,
                   recent_transactions =
                     [\<lparr>tx_type = JStr ''user_transaction'',
                       timestamp = JStr ''2024-02-20T12:00:00'',
                       success = JBool True\<rparr>]\<rparr>,
                is_scammer = True,
                verification_results =
                  \<lparr>average_risk_score = 0, questionable_nfts = [],
                   is_verified = True,
                   verification_timestamp = ''2024-03-01T12:00:00''\<rparr>\<rparr>)"
proof -
  have res: "get_account_resources sample_api ''0xbad''
       = Some [[(''type'', JStr ''0x3::token::TokenStore''),
                (''data'', JObj [(''name'', JStr ''Ape''), (''token_id'', JStr ''7''),
                                 (''uri'', JStr ''ipfs://ape'')])]]"
    by (simp add: sample_api_def)
  have run: "get_nft_data_by_owner sample_clock sample_api {''0xbad'', ''0xworse''} ''0xbad''
       = Inr (Account_info
               \<lparr>owner_address = ''0xbad'',
                nfts =
                  [[(''name'', JStr ''Ape''), (''id'', JStr ''7''),
                    (''collection'', JStr ''N/A''), (''creator'', JStr ''N/A''),
                    (''metadata'',
                       JObj [(''name'', JStr ''Ape''), (''token_id'', JStr ''7''),
                             (''uri'', JStr ''ipfs://ape'')]),
                    (''resource_type'', JStr ''0x3::token::TokenStore''),
                    (''uri'', JStr ''ipfs://ape'')]],
                token_balances = [],
                account_activities =
                  \<lparr>nft_staking = False,
                   token_swaps = \<lparr>swap_count = 0, listing_count = 0\<rparr>,
                   nft_transfers = \<lparr>deposit_count = 1, withdraw_count = 0\<rparr>,
                   property_modifications = 0,
                   recent_transactions =
                     [\<lparr>tx_type = JStr ''user_transaction'',
                       timestamp = JStr ''2024-02-20T12:00:00'',
                       success = JBool True\<rparr>]\<rparr>,
                is_scammer = True,
                verification_results =
                  \<lparr>average_risk_score = 0, questionable_nfts = [],
                   is_verified = True,
                   verification_timestamp = ''2024-03-01T12:00:00''\<rparr>\<rparr>)"
    by (simp add: get_nft_data_by_owner_def sample_api_def sample_clock_def ebind_def
        format_nft_def parse_token_balance_def parse_account_activities_def parse_tx_def
        mentions_def event_type_def get_lower_def verify_nfts_def analyze_nft_risk_def
        verify_nft_metadata_def is_nft_transfer_def dict_get_def has_key_def lower_def
        lower_char_def no_activities_def)
  from owner_report_scammer_flag
         [of "''0xbad''" "{''0xbad'', ''0xworse''}" sample_api _ sample_clock] res run
  show ?thesis by simp
qed

end
